theory Spec2Isabelle
  imports Complex_Main "HOL-Library.Word" "HOL-Library.Sublist"
begin

unbundle bit_operations_syntax

section \<open>The Smart Context plugin: data model\<close>

text \<open>
  The program is the Python plugin given in
  \<^verbatim>\<open>docs/plans/2026-03-01-smart-context-implementation-plan.md\<close>:
  \<^verbatim>\<open>embedding_cache.py\<close> (class \<^verbatim>\<open>EmbeddingCache\<close>) and \<^verbatim>\<open>main.py\<close>
  (class \<^verbatim>\<open>Plugin\<close>). Python strings are modelled as byte strings (the UTF-8
  encoding of the text), Python floats as reals, dictionaries as maps, and every
  \<^verbatim>\<open>raise\<close> as a value \<open>Inl e\<close> of a sum type. The collaborators the plugin calls
  (the LLM service, the \<^verbatim>\<open>memory\<close> plugin, the JSON parser, the file system) are the
  fields of an environment record, so that every theorem holds for every behaviour
  of theirs. Rounding of floats and exceptions outside \<^verbatim>\<open>Exception\<close> (a cancelled
  task) are not modelled; no theorem below depends on the value of a similarity.
\<close>

subsection \<open>Exceptions\<close>

text \<open>All of them are subclasses of Python's \<^verbatim>\<open>Exception\<close>.\<close>

datatype error =
    ProviderError
  | StoreError
  | OSError
  | JSONDecodeError
  | ValueError
  | KeyError

type_synonym vec = "real list"

subsection \<open>Messages and topics\<close>

text \<open>
  A message is a dictionary; the code reads it with \<^verbatim>\<open>msg.get("id", "")\<close> and
  \<^verbatim>\<open>str(msg.get("content", ""))\<close>, so a key may be missing.
\<close>

record message =
  msg_id :: "string option"
  msg_role :: "string option"
  msg_content :: "string option"

definition get_id :: "message \<Rightarrow> string" where
  "get_id msg = (case msg_id msg of None \<Rightarrow> [] | Some i \<Rightarrow> i)"

definition get_content :: "message \<Rightarrow> string" where
  "get_content msg = (case msg_content msg of None \<Rightarrow> [] | Some c \<Rightarrow> c)"

text \<open>
  A topic is a dictionary with the keys \<^verbatim>\<open>label\<close>, \<^verbatim>\<open>count\<close> and, optionally,
  \<^verbatim>\<open>sticky\<close> and \<^verbatim>\<open>message_ids\<close>; \<open>sticky\<close> is the truth value of
  \<^verbatim>\<open>t.get("sticky")\<close> and \<open>message_ids\<close> is \<^verbatim>\<open>t.get("message_ids", [])\<close>.
  The topics of a completion are stored as they were parsed, so the key \<^verbatim>\<open>label\<close>,
  which the code reads with \<^verbatim>\<open>t['label']\<close>, may be missing: \<open>label\<close> is \<open>None\<close> then.
\<close>

record topic =
  label :: "string option"
  count :: int
  sticky :: bool
  message_ids :: "string list"

record chat_data =
  chat_messages :: "message list"
  chat_topics :: "topic list"

section \<open>MD5 (hashlib.md5), after RFC 1321\<close>

type_synonym u32 = "32 word"
type_synonym byte = "8 word"

definition md5_s :: "nat list" where
  "md5_s = [7, 12, 17, 22, 7, 12, 17, 22, 7, 12, 17, 22, 7, 12, 17, 22,
            5, 9, 14, 20, 5, 9, 14, 20, 5, 9, 14, 20, 5, 9, 14, 20,
            4, 11, 16, 23, 4, 11, 16, 23, 4, 11, 16, 23, 4, 11, 16, 23,
            6, 10, 15, 21, 6, 10, 15, 21, 6, 10, 15, 21, 6, 10, 15, 21]"

definition md5_K :: "u32 list" where
  "md5_K = [0xd76aa478, 0xe8c7b756, 0x242070db, 0xc1bdceee,
            0xf57c0faf, 0x4787c62a, 0xa8304613, 0xfd469501,
            0x698098d8, 0x8b44f7af, 0xffff5bb1, 0x895cd7be,
            0x6b901122, 0xfd987193, 0xa679438e, 0x49b40821,
            0xf61e2562, 0xc040b340, 0x265e5a51, 0xe9b6c7aa,
            0xd62f105d, 0x02441453, 0xd8a1e681, 0xe7d3fbc8,
            0x21e1cde6, 0xc33707d6, 0xf4d50d87, 0x455a14ed,
            0xa9e3e905, 0xfcefa3f8, 0x676f02d9, 0x8d2a4c8a,
            0xfffa3942, 0x8771f681, 0x6d9d6122, 0xfde5380c,
            0xa4beea44, 0x4bdecfa9, 0xf6bb4b60, 0xbebfbc70,
            0x289b7ec6, 0xeaa127fa, 0xd4ef3085, 0x04881d05,
            0xd9d4d039, 0xe6db99e5, 0x1fa27cf8, 0xc4ac5665,
            0xf4292244, 0x432aff97, 0xab9423a7, 0xfc93a039,
            0x655b59c3, 0x8f0ccc92, 0xffeff47d, 0x85845dd1,
            0x6fa87e4f, 0xfe2ce6e0, 0xa3014314, 0x4e0811a1,
            0xf7537e82, 0xbd3af235, 0x2ad7d2bb, 0xeb86d391]"

definition leftrotate :: "u32 \<Rightarrow> nat \<Rightarrow> u32" where
  "leftrotate x c = (push_bit c x) OR (drop_bit (32 - c) x)"

text \<open>Padding: the byte 0x80, zeros up to 56 modulo 64, the bit length in 64 bits, little endian.\<close>

definition md5_pad :: "byte list \<Rightarrow> byte list" where
  "md5_pad bs =
     (let n = length bs;
          z = (119 - n mod 64) mod 64;
          bitlen = (of_nat (8 * n) :: 64 word)
      in bs @ [0x80] @ replicate z 0 @ map (\<lambda>i. ucast (drop_bit (8 * i) bitlen)) [0..<8])"

definition le_word :: "byte list \<Rightarrow> u32" where
  "le_word bs = ucast (bs ! 0) OR push_bit 8 (ucast (bs ! 1)) OR push_bit 16 (ucast (bs ! 2))
                  OR push_bit 24 (ucast (bs ! 3))"

definition chunk_words :: "byte list \<Rightarrow> u32 list" where
  "chunk_words c = map (\<lambda>j. le_word (take 4 (drop (4 * j) c))) [0..<16]"

definition md5_round ::
  "u32 list \<Rightarrow> nat \<Rightarrow> u32 \<times> u32 \<times> u32 \<times> u32 \<Rightarrow> u32 \<times> u32 \<times> u32 \<times> u32" where
  "md5_round M i st =
     (case st of (A, B, C, D) \<Rightarrow>
        let (F, g) =
              (if i < 16 then ((B AND C) OR (NOT B AND D), i)
               else if i < 32 then ((D AND B) OR (NOT D AND C), (5 * i + 1) mod 16)
               else if i < 48 then (B XOR C XOR D, (3 * i + 5) mod 16)
               else (C XOR (B OR NOT D), (7 * i) mod 16));
            F' = F + A + md5_K ! i + M ! g
        in (D, B + leftrotate F' (md5_s ! i), B, C))"

definition md5_chunk ::
  "u32 \<times> u32 \<times> u32 \<times> u32 \<Rightarrow> byte list \<Rightarrow> u32 \<times> u32 \<times> u32 \<times> u32" where
  "md5_chunk h c =
     (case h of (a0, b0, c0, d0) \<Rightarrow>
        (case fold (md5_round (chunk_words c)) [0..<64] h of
           (A, B, C, D) \<Rightarrow> (a0 + A, b0 + B, c0 + C, d0 + D)))"

fun chunks :: "nat \<Rightarrow> byte list \<Rightarrow> byte list list" where
  "chunks 0 bs = []"
| "chunks (Suc k) bs = take 64 bs # chunks k (drop 64 bs)"

definition md5_state :: "byte list \<Rightarrow> u32 \<times> u32 \<times> u32 \<times> u32" where
  "md5_state bs =
     (let p = md5_pad bs
      in fold (\<lambda>c h. md5_chunk h c) (chunks (length p div 64) p)
           (0x67452301, 0xefcdab89, 0x98badcfe, 0x10325476))"

definition word_bytes :: "u32 \<Rightarrow> byte list" where
  "word_bytes w = map (\<lambda>i. ucast (drop_bit (8 * i) w)) [0..<4]"

definition md5_digest :: "byte list \<Rightarrow> byte list" where
  "md5_digest bs =
     (case md5_state bs of (a, b, c, d) \<Rightarrow>
        word_bytes a @ word_bytes b @ word_bytes c @ word_bytes d)"

definition hex_digit :: "nat \<Rightarrow> char" where
  "hex_digit n = ''0123456789abcdef'' ! n"

definition hex_byte :: "byte \<Rightarrow> string" where
  "hex_byte b = [hex_digit (unat b div 16), hex_digit (unat b mod 16)]"

text \<open>\<^verbatim>\<open>hashlib.md5(content.encode()).hexdigest()\<close>\<close>

definition md5_hexdigest :: "string \<Rightarrow> string" where
  "md5_hexdigest content = concat (map hex_byte (md5_digest (map of_char content)))"

section \<open>embedding\_cache.py\<close>

text \<open>
  The backing store: a path holds either something \<^verbatim>\<open>json.load\<close> fails on, or a
  dictionary from keys to vectors. Whether a write to a path succeeds is a parameter.
\<close>

datatype cache_file = Unreadable | EmbeddingsJson "string \<Rightarrow> vec option"

type_synonym fs = "string \<Rightarrow> cache_file option"

record EmbeddingCache =
  cache_path :: string
  cache_data :: "string \<Rightarrow> vec option"

definition isalnum :: "char \<Rightarrow> bool" where
  "isalnum c =
     (c \<in> set ''abcdefghijklmnopqrstuvwxyzABCDEFGHIJKLMNOPQRSTUVWXYZ0123456789'')"

definition EmbeddingCache_load :: "fs \<Rightarrow> string \<Rightarrow> (string \<Rightarrow> vec option)" where
  "EmbeddingCache_load files p =
     (case files p of
        None \<Rightarrow> Map.empty
      | Some Unreadable \<Rightarrow> Map.empty
      | Some (EmbeddingsJson d) \<Rightarrow> d)"

definition EmbeddingCache_init :: "fs \<Rightarrow> string \<Rightarrow> string \<Rightarrow> EmbeddingCache" where
  "EmbeddingCache_init files memory_dir chat_id =
     (let safe_id = filter (\<lambda>c. isalnum c \<or> c \<in> set ''-_'') chat_id;
          p = memory_dir @ ''/'' @ safe_id @ ''.embeddings.json''
      in \<lparr>cache_path = p, cache_data = EmbeddingCache_load files p\<rparr>)"

definition EmbeddingCache_save ::
  "(string \<Rightarrow> error option) \<Rightarrow> EmbeddingCache \<Rightarrow> fs \<Rightarrow> error + fs" where
  "EmbeddingCache_save write_fault c files =
     (case write_fault (cache_path c) of
        Some err \<Rightarrow> Inl err
      | None \<Rightarrow> Inr (files(cache_path c \<mapsto> EmbeddingsJson (cache_data c))))"

definition EmbeddingCache_key :: "string \<Rightarrow> string \<Rightarrow> string" where
  "EmbeddingCache_key message_id content =
     (let h = take 8 (md5_hexdigest content) in message_id @ '':'' @ h)"

definition EmbeddingCache_get :: "EmbeddingCache \<Rightarrow> string \<Rightarrow> string \<Rightarrow> vec option" where
  "EmbeddingCache_get c message_id content = cache_data c (EmbeddingCache_key message_id content)"

text \<open>
  \<^verbatim>\<open>set\<close> updates the dictionary and then writes the file; when the write raises,
  the dictionary of the object is already updated.
\<close>

definition EmbeddingCache_set ::
  "(string \<Rightarrow> error option) \<Rightarrow> EmbeddingCache \<Rightarrow> string \<Rightarrow> string \<Rightarrow> vec \<Rightarrow> fs
     \<Rightarrow> (error + unit) \<times> EmbeddingCache \<times> fs" where
  "EmbeddingCache_set write_fault c message_id content embedding files =
     (let c' = c\<lparr>cache_data := (cache_data c)(EmbeddingCache_key message_id content \<mapsto> embedding)\<rparr>
      in case EmbeddingCache_save write_fault c' files of
           Inl err \<Rightarrow> (Inl err, c', files)
         | Inr files' \<Rightarrow> (Inr (), c', files'))"

section \<open>main.py: configuration and state\<close>

definition sum_floats :: "real list \<Rightarrow> real" where
  "sum_floats xs = fold (\<lambda>x acc. acc + x) xs 0"

definition cosine_similarity :: "vec \<Rightarrow> vec \<Rightarrow> real" where
  "cosine_similarity a b =
     (let dot = sum_floats (map (\<lambda>(x, y). x * y) (zip a b));
          norm_a = sqrt (sum_floats (map (\<lambda>x. x * x) a));
          norm_b = sqrt (sum_floats (map (\<lambda>x. x * x) b))
      in if norm_a = 0 \<or> norm_b = 0 then 0 else dot / (norm_a * norm_b))"

text \<open>
  The values of \<^verbatim>\<open>self.config\<close> (read from the vault's TOML file) that
  \<^verbatim>\<open>__init__\<close> converts with \<^verbatim>\<open>float\<close> and \<^verbatim>\<open>bool\<close>. Python's parser of
  float literals, which \<^verbatim>\<open>float\<close> applies to a string, is a parameter.
\<close>

datatype cfg_value = CFloat real | CBool bool | CStr string

record config =
  cfg_similarity_threshold :: "cfg_value option"
  cfg_embedding_search :: "cfg_value option"
  cfg_extraction_category :: "string option"

definition py_float :: "(string \<Rightarrow> real option) \<Rightarrow> cfg_value \<Rightarrow> error + real" where
  "py_float parse v =
     (case v of
        CFloat r \<Rightarrow> Inr r
      | CBool b \<Rightarrow> Inr (if b then 1 else 0)
      | CStr s \<Rightarrow> (case parse s of None \<Rightarrow> Inl ValueError | Some r \<Rightarrow> Inr r))"

definition py_bool :: "cfg_value \<Rightarrow> bool" where
  "py_bool v = (case v of CFloat r \<Rightarrow> r \<noteq> 0 | CBool b \<Rightarrow> b | CStr s \<Rightarrow> s \<noteq> [])"

text \<open>
  The attributes of the plugin object. \<^verbatim>\<open>active_topics\<close> is a Python set; the model
  keeps it as a list without duplicates (\<^verbatim>\<open>set(topics)\<close> is \<open>remdups topics\<close>),
  which fixes the order \<^verbatim>\<open>list(self.active_topics)\<close> enumerates it in.
\<close>

record plugin =
  plugin_config :: config
  vault_path :: string
  similarity_threshold :: real
  embedding_search :: bool
  active_topics :: "string list"
  current_chat_id :: string

text \<open>\<^verbatim>\<open>Plugin.__init__\<close>\<close>

definition Plugin_init ::
  "(string \<Rightarrow> real option) \<Rightarrow> string \<Rightarrow> config \<Rightarrow> error + plugin" where
  "Plugin_init parse vault cfg =
     (case py_float parse (case cfg_similarity_threshold cfg of None \<Rightarrow> CFloat (2 / 5) | Some v \<Rightarrow> v) of
        Inl err \<Rightarrow> Inl err
      | Inr threshold \<Rightarrow>
          Inr \<lparr>plugin_config = cfg,
               vault_path = vault,
               similarity_threshold = threshold,
               embedding_search =
                 py_bool (case cfg_embedding_search cfg of None \<Rightarrow> CBool True | Some v \<Rightarrow> v),
               active_topics = [],
               current_chat_id = []\<rparr>)"

subsection \<open>The collaborators\<close>

text \<open>
  The object \<^verbatim>\<open>json.loads\<close> returns, read with \<^verbatim>\<open>data.get\<close>: a key may be
  missing, and a topic may lack its \<^verbatim>\<open>label\<close>. The value of \<^verbatim>\<open>topics\<close>, when
  there is one, is taken to be a list of objects.
\<close>

record extraction =
  json_topics :: "topic list option"
  json_sticky_message_ids :: "string list option"

record env =
  llm_embed :: "string list \<Rightarrow> error + vec list"
  llm_complete :: "(string \<times> string) list \<Rightarrow> string \<Rightarrow> error + string"
  json_loads :: "string \<Rightarrow> error + extraction"
  load_fault :: "string \<Rightarrow> error option"
  save_fault :: "string \<Rightarrow> error option"
  write_fault :: "string \<Rightarrow> error option"
  TOPIC_EXTRACTION_PROMPT :: string

datatype event =
    TopicsUpdated string "topic list" nat
  | FilterChanged "string list" string
  | HighlightApplied "string list"

datatype log_entry =
    TopicsExtracted string "string list"
  | TopicExtractionFailed string error
  | ContextInjectionFailed error
  | HighlightComputationFailed error

datatype task = RunTopicExtraction string | EmitHighlightIds string

text \<open>
  Everything outside the plugin object that the plugin reads or changes: the chat
  documents of the \<^verbatim>\<open>memory\<close> plugin, the \<^verbatim>\<open>memory.save_chat\<close> commands executed so
  far, the embedding-cache files, the log, the events emitted to the panel and the
  background tasks created.
\<close>

record world =
  chats :: "string \<Rightarrow> chat_data option"
  saved :: "(string \<times> chat_data) list"
  files :: fs
  log :: "log_entry list"
  events :: "event list"
  tasks :: "task list"

text \<open>
  Modelled from the spec: the answer of a command of the \<^verbatim>\<open>memory\<close> plugin, whose
  code is not among the sources; the plugin reads it with \<^verbatim>\<open>result.get("status")\<close>
  and \<^verbatim>\<open>result.get("data", {})\<close>.
\<close>

record cmd_result =
  result_status :: string
  result_data :: "chat_data option"

text \<open>
  Modelled from the spec: the command \<^verbatim>\<open>memory.load_chat\<close> of the \<^verbatim>\<open>memory\<close>
  plugin, whose code is not among the sources (``Chat store:
  \<^verbatim>\<open>load_chat(chat_id) -> {messages, topics}\<close>''). It raises when the environment
  says so, and otherwise answers from the chat documents.
\<close>

definition memory_load_chat :: "env \<Rightarrow> world \<Rightarrow> string \<Rightarrow> error + cmd_result" where
  "memory_load_chat e w chat_id =
     (case load_fault e chat_id of
        Some err \<Rightarrow> Inl err
      | None \<Rightarrow>
          (case chats w chat_id of
             None \<Rightarrow> Inr \<lparr>result_status = ''error'', result_data = None\<rparr>
           | Some d \<Rightarrow> Inr \<lparr>result_status = ''success'', result_data = Some d\<rparr>))"

text \<open>
  Modelled from the spec: the command \<^verbatim>\<open>memory.save_chat\<close> of the \<^verbatim>\<open>memory\<close>
  plugin, whose code is not among the sources (``\<^verbatim>\<open>save_chat(chat_id, data)\<close>'').
  It raises when the environment says so, and otherwise replaces the chat document
  and is recorded among the executed save commands.
\<close>

definition memory_save_chat :: "env \<Rightarrow> world \<Rightarrow> string \<Rightarrow> chat_data \<Rightarrow> error + world" where
  "memory_save_chat e w chat_id d =
     (case save_fault e chat_id of
        Some err \<Rightarrow> Inl err
      | None \<Rightarrow> Inr (w\<lparr>chats := (chats w)(chat_id \<mapsto> d), saved := saved w @ [(chat_id, d)]\<rparr>))"

text \<open>\<^verbatim>\<open>data = result.get("data", {})\<close> followed by \<^verbatim>\<open>data.get("topics", [])\<close>\<close>

definition result_topics :: "cmd_result \<Rightarrow> topic list" where
  "result_topics r = (case result_data r of None \<Rightarrow> [] | Some d \<Rightarrow> chat_topics d)"

definition result_messages :: "cmd_result \<Rightarrow> message list" where
  "result_messages r = (case result_data r of None \<Rightarrow> [] | Some d \<Rightarrow> chat_messages d)"

section \<open>main.py: the context filter\<close>

record pipeline_context =
  ctx_response :: string
  ctx_metadata :: "string \<Rightarrow> string option"
  ctx_history :: "message list"

text \<open>The loop that collects \<^verbatim>\<open>sticky_ids\<close> from the topics of the chat document.\<close>

definition collect_sticky_ids :: "topic list \<Rightarrow> string set" where
  "collect_sticky_ids topics_list =
     fold (\<lambda>t sticky_ids. if sticky t then sticky_ids \<union> set (message_ids t) else sticky_ids)
       topics_list {}"

text \<open>\<^verbatim>\<open>max\<close> of a generator raises \<^verbatim>\<open>ValueError\<close> when there is nothing to take it of.\<close>

definition py_max :: "real list \<Rightarrow> error + real" where
  "py_max xs = (case xs of [] \<Rightarrow> Inl ValueError | x # rest \<Rightarrow> Inr (fold max rest x))"

text \<open>First loop of \<^verbatim>\<open>_compute_relevant_ids\<close>: what the cache holds, and what it misses.\<close>

definition lookup_step ::
  "EmbeddingCache \<Rightarrow> message \<Rightarrow> message list \<times> (string \<Rightarrow> vec option)
     \<Rightarrow> message list \<times> (string \<Rightarrow> vec option)" where
  "lookup_step cache msg acc =
     (case acc of (need_embed, cached) \<Rightarrow>
        (case EmbeddingCache_get cache (get_id msg) (get_content msg) of
           Some emb \<Rightarrow> (need_embed, cached(get_id msg \<mapsto> emb))
         | None \<Rightarrow> (need_embed @ [msg], cached)))"

definition lookup_loop ::
  "EmbeddingCache \<Rightarrow> message list \<Rightarrow> message list \<times> (string \<Rightarrow> vec option)" where
  "lookup_loop cache messages = fold (lookup_step cache) messages ([], Map.empty)"

text \<open>Second loop: the new embeddings are written to the cache, one \<^verbatim>\<open>set\<close> each.\<close>

fun store_loop ::
  "env \<Rightarrow> (message \<times> vec) list \<Rightarrow> EmbeddingCache \<Rightarrow> fs \<Rightarrow> (string \<Rightarrow> vec option)
     \<Rightarrow> error option \<times> fs \<times> (string \<Rightarrow> vec option)" where
  "store_loop e [] cache fl cached = (None, fl, cached)"
| "store_loop e ((msg, emb) # rest) cache fl cached =
     (case EmbeddingCache_set (write_fault e) cache (get_id msg) (get_content msg) emb fl of
        (Inl err, cache', fl') \<Rightarrow> (Some err, fl', cached)
      | (Inr u, cache', fl') \<Rightarrow> store_loop e rest cache' fl' (cached(get_id msg \<mapsto> emb)))"

text \<open>Both loops: the dictionary \<^verbatim>\<open>cached\<close> from message ids to embeddings.\<close>

definition resolve_embeddings ::
  "env \<Rightarrow> plugin \<Rightarrow> fs \<Rightarrow> string \<Rightarrow> message list
     \<Rightarrow> error option \<times> fs \<times> (string \<Rightarrow> vec option)" where
  "resolve_embeddings e p fl chat_id messages =
     (let cache = EmbeddingCache_init fl (vault_path p @ ''/.memory'') chat_id
      in case lookup_loop cache messages of
           (need_embed, cached) \<Rightarrow>
             if need_embed = [] then (None, fl, cached)
             else (case llm_embed e (map get_content need_embed) of
                     Inl err \<Rightarrow> (Some err, fl, cached)
                   | Inr new_embeddings \<Rightarrow>
                       store_loop e (zip need_embed new_embeddings) cache fl cached))"

text \<open>Third loop: sticky ids first, then the score against the threshold.\<close>

fun score_loop ::
  "real \<Rightarrow> vec list \<Rightarrow> string set \<Rightarrow> (string \<Rightarrow> vec option) \<Rightarrow> string list \<Rightarrow> message list
     \<Rightarrow> error + string list" where
  "score_loop threshold topic_embeddings sticky_ids cached included [] = Inr included"
| "score_loop threshold topic_embeddings sticky_ids cached included (msg # rest) =
     (if get_id msg \<in> sticky_ids
      then score_loop threshold topic_embeddings sticky_ids cached (included @ [get_id msg]) rest
      else case cached (get_id msg) of
             None \<Rightarrow> score_loop threshold topic_embeddings sticky_ids cached included rest
           | Some emb \<Rightarrow>
               (case py_max (map (\<lambda>t_emb. cosine_similarity emb t_emb) topic_embeddings) of
                  Inl err \<Rightarrow> Inl err
                | Inr max_sim \<Rightarrow>
                    if max_sim \<ge> threshold
                    then score_loop threshold topic_embeddings sticky_ids cached
                           (included @ [get_id msg]) rest
                    else score_loop threshold topic_embeddings sticky_ids cached included rest))"

text \<open>\<^verbatim>\<open>_compute_relevant_ids\<close>: the ids, or the exception, and the files as it leaves them.\<close>

definition compute_relevant_ids ::
  "env \<Rightarrow> plugin \<Rightarrow> fs \<Rightarrow> string \<Rightarrow> message list \<Rightarrow> string set
     \<Rightarrow> (error + string list) \<times> fs" where
  "compute_relevant_ids e p fl chat_id messages sticky_ids =
     (case llm_embed e (active_topics p) of
        Inl err \<Rightarrow> (Inl err, fl)
      | Inr topic_embeddings \<Rightarrow>
          (case resolve_embeddings e p fl chat_id messages of
             (Some err, fl', cached) \<Rightarrow> (Inl err, fl')
           | (None, fl', cached) \<Rightarrow>
               (score_loop (similarity_threshold p) topic_embeddings sticky_ids cached []
                  messages, fl')))"

text \<open>The body of the \<^verbatim>\<open>try\<close> of \<^verbatim>\<open>_on_pipeline_context\<close>: the new history, or the exception.\<close>

definition filter_history ::
  "env \<Rightarrow> plugin \<Rightarrow> world \<Rightarrow> string \<Rightarrow> message list \<Rightarrow> (error + message list) \<times> fs" where
  "filter_history e p w chat_id history =
     (case memory_load_chat e w chat_id of
        Inl err \<Rightarrow> (Inl err, files w)
      | Inr result \<Rightarrow>
          (let sticky_ids = collect_sticky_ids (result_topics result)
           in case compute_relevant_ids e p (files w) chat_id history sticky_ids of
                (Inl err, fl') \<Rightarrow> (Inl err, fl')
              | (Inr included, fl') \<Rightarrow>
                  (let non_sticky_included = filter (\<lambda>i. i \<notin> sticky_ids) included
                   in if non_sticky_included = [] then (Inr history, fl')
                      else (Inr (filter (\<lambda>m. get_id m \<in> set included) history), fl'))))"

text \<open>
  \<^verbatim>\<open>_on_pipeline_context\<close>: the two gates, then the \<^verbatim>\<open>try\<close>, whose handler logs the
  exception and leaves \<^verbatim>\<open>ctx.history\<close> as it was.
\<close>

definition on_pipeline_context ::
  "env \<Rightarrow> plugin \<Rightarrow> world \<Rightarrow> pipeline_context \<Rightarrow> pipeline_context \<times> world" where
  "on_pipeline_context e p w ctx =
     (if active_topics p = [] \<or> \<not> embedding_search p then (ctx, w)
      else case ctx_metadata ctx ''chat_id'' of
             None \<Rightarrow> (ctx, w)
           | Some chat_id \<Rightarrow>
               if chat_id = [] \<or> ctx_history ctx = [] then (ctx, w)
               else (case filter_history e p w chat_id (ctx_history ctx) of
                       (Inl err, fl') \<Rightarrow>
                         (ctx, w\<lparr>files := fl', log := log w @ [ContextInjectionFailed err]\<rparr>)
                     | (Inr history', fl') \<Rightarrow>
                         (ctx\<lparr>ctx_history := history'\<rparr>, w\<lparr>files := fl'\<rparr>)))"

section \<open>main.py: topic extraction\<close>

definition isspace :: "char \<Rightarrow> bool" where
  "isspace c = ((of_char c :: nat) \<in> {9, 10, 11, 12, 13, 28, 29, 30, 31, 32})"

definition py_strip :: "string \<Rightarrow> string" where
  "py_strip s = rev (dropWhile isspace (rev (dropWhile isspace s)))"

definition fence :: string where
  "fence = replicate 3 (CHR 0x60)"

text \<open>\<^verbatim>\<open>"\n".join(raw.split("\n")[1:])\<close>: what follows the first newline.\<close>

definition drop_first_line :: "string \<Rightarrow> string" where
  "drop_first_line raw =
     (case dropWhile (\<lambda>c. c \<noteq> CHR 0x0A) raw of [] \<Rightarrow> [] | c # rest \<Rightarrow> rest)"

definition strip_fence :: "string \<Rightarrow> string" where
  "strip_fence content =
     (let raw = py_strip content
      in if take 3 raw = fence
         then (let raw' = drop_first_line raw
               in if 3 \<le> length raw' \<and> drop (length raw' - 3) raw' = fence
                  then take (length raw' - 3) raw' else raw')
         else raw)"

definition format_message :: "message \<Rightarrow> string" where
  "format_message m =
     ''['' @ (case msg_id m of None \<Rightarrow> ''?'' | Some i \<Rightarrow> i) @ ''] ''
       @ (case msg_role m of None \<Rightarrow> ''user'' | Some r \<Rightarrow> r) @ '': ''
       @ take 200 (get_content m)"

fun join_lines :: "string list \<Rightarrow> string" where
  "join_lines [] = []"
| "join_lines [l] = l"
| "join_lines (l # ls) = l @ [CHR 0x0A] @ join_lines ls"

text \<open>
  \<^verbatim>\<open>_extract_topics\<close>: one completion call (with \<^verbatim>\<open>max_tokens=512\<close> and
  \<^verbatim>\<open>temperature=0.2\<close>), the fence removed, the JSON parsed, and the sticky entry
  appended when ids were flagged.
\<close>

definition llm_messages :: "env \<Rightarrow> message list \<Rightarrow> (string \<times> string) list" where
  "llm_messages e messages =
     (let conversation = join_lines (map format_message messages)
      in [(''system'', TOPIC_EXTRACTION_PROMPT e), (''user'', conversation)])"

definition extraction_category :: "plugin \<Rightarrow> string" where
  "extraction_category p =
     (case cfg_extraction_category (plugin_config p) of None \<Rightarrow> ''fast'' | Some c \<Rightarrow> c)"

definition sticky_entry :: "string list \<Rightarrow> topic" where
  "sticky_entry sticky_ids =
     \<lparr>label = Some ''Instructions & Preferences'',
      count = int (length sticky_ids),
      sticky = True,
      message_ids = sticky_ids\<rparr>"

text \<open>\<^verbatim>\<open>data.get("topics", [])\<close> and \<^verbatim>\<open>data.get("sticky_message_ids", [])\<close>\<close>

definition data_topics :: "extraction \<Rightarrow> topic list" where
  "data_topics data = (case json_topics data of None \<Rightarrow> [] | Some ts \<Rightarrow> ts)"

definition data_sticky_ids :: "extraction \<Rightarrow> string list" where
  "data_sticky_ids data = (case json_sticky_message_ids data of None \<Rightarrow> [] | Some ids \<Rightarrow> ids)"

definition extract_topics :: "env \<Rightarrow> plugin \<Rightarrow> message list \<Rightarrow> error + topic list" where
  "extract_topics e p messages =
     (case llm_complete e (llm_messages e messages) (extraction_category p) of
        Inl err \<Rightarrow> Inl err
      | Inr content \<Rightarrow>
          (case json_loads e (strip_fence content) of
             Inl err \<Rightarrow> Inl err
           | Inr data \<Rightarrow>
               (let topics = data_topics data;
                    sticky_ids = data_sticky_ids data
                in if sticky_ids \<noteq> [] then Inr (topics @ [sticky_entry sticky_ids])
                   else Inr topics)))"

text \<open>\<^verbatim>\<open>_on_pipeline_output\<close> creates the background task.\<close>

definition on_pipeline_output :: "world \<Rightarrow> pipeline_context \<Rightarrow> world" where
  "on_pipeline_output w ctx =
     (if ctx_response ctx = [] then w
      else case ctx_metadata ctx ''chat_id'' of
             None \<Rightarrow> w
           | Some chat_id \<Rightarrow>
               if chat_id = [] then w
               else w\<lparr>tasks := tasks w @ [RunTopicExtraction chat_id]\<rparr>)"

text \<open>
  \<^verbatim>\<open>[t['label'] for t in topics]\<close>, the list the success message is formatted
  with: a topic without the key raises \<^verbatim>\<open>KeyError\<close>.
\<close>

fun topic_labels :: "topic list \<Rightarrow> error + string list" where
  "topic_labels [] = Inr []"
| "topic_labels (t # ts) =
     (case label t of
        None \<Rightarrow> Inl KeyError
      | Some l \<Rightarrow> (case topic_labels ts of Inl err \<Rightarrow> Inl err | Inr ls \<Rightarrow> Inr (l # ls)))"

text \<open>
  The body of the \<^verbatim>\<open>try\<close> of \<^verbatim>\<open>_run_topic_extraction\<close>: the exception it ends
  with, if any, and the plugin and the world as they are at that moment. The topics
  are saved, the chat id is set and the event is emitted before the success message
  is formatted.
\<close>

definition extraction_body ::
  "env \<Rightarrow> plugin \<Rightarrow> world \<Rightarrow> string \<Rightarrow> error option \<times> plugin \<times> world" where
  "extraction_body e p w chat_id =
     (case memory_load_chat e w chat_id of
        Inl err \<Rightarrow> (Some err, p, w)
      | Inr result \<Rightarrow>
          if result_status result \<noteq> ''success'' then (None, p, w)
          else (let data = (case result_data result of
                              None \<Rightarrow> \<lparr>chat_messages = [], chat_topics = []\<rparr> | Some d \<Rightarrow> d);
                    messages = chat_messages data
                in if messages = [] then (None, p, w)
                   else (case extract_topics e p messages of
                           Inl err \<Rightarrow> (Some err, p, w)
                         | Inr topics \<Rightarrow>
                             (case memory_save_chat e w chat_id (data\<lparr>chat_topics := topics\<rparr>) of
                                Inl err \<Rightarrow> (Some err, p, w)
                              | Inr w' \<Rightarrow>
                                  (let p' = p\<lparr>current_chat_id := chat_id\<rparr>;
                                       w'' = w'\<lparr>events := events w' @
                                               [TopicsUpdated chat_id topics (length messages)]\<rparr>
                                   in case topic_labels topics of
                                        Inl err \<Rightarrow> (Some err, p', w'')
                                      | Inr labels \<Rightarrow>
                                          (None, p',
                                           w''\<lparr>log := log w'' @
                                                 [TopicsExtracted chat_id labels]\<rparr>))))))"

text \<open>\<^verbatim>\<open>_run_topic_extraction\<close>: the handler logs the exception and returns.\<close>

definition run_topic_extraction :: "env \<Rightarrow> plugin \<Rightarrow> world \<Rightarrow> string \<Rightarrow> plugin \<times> world" where
  "run_topic_extraction e p w chat_id =
     (case extraction_body e p w chat_id of
        (Some err, p', w') \<Rightarrow> (p', w'\<lparr>log := log w' @ [TopicExtractionFailed chat_id err]\<rparr>)
      | (None, p', w') \<Rightarrow> (p', w'))"

text \<open>A sequence of extractions of one chat, each with its own environment.\<close>

fun run_extractions :: "env list \<Rightarrow> plugin \<Rightarrow> world \<Rightarrow> string \<Rightarrow> plugin \<times> world" where
  "run_extractions [] p w chat_id = (p, w)"
| "run_extractions (e # es) p w chat_id =
     (case run_topic_extraction e p w chat_id of (p', w') \<Rightarrow> run_extractions es p' w' chat_id)"

section \<open>main.py: commands\<close>

text \<open>
  \<^verbatim>\<open>set_filter\<close>: \<open>topics\<close> is the argument (\<open>None\<close> when it is not given) and
  \<open>kw_topics\<close> is \<^verbatim>\<open>topics\<close> of the nested parameters, when they hold one.
\<close>

definition set_filter ::
  "string list option \<Rightarrow> string list option \<Rightarrow> plugin \<Rightarrow> world
     \<Rightarrow> plugin \<times> world \<times> string \<times> string list" where
  "set_filter topics kw_topics p w =
     (let topics' = (case topics of
                       Some ts \<Rightarrow> ts
                     | None \<Rightarrow> (case kw_topics of None \<Rightarrow> [] | Some ts \<Rightarrow> ts));
          p' = p\<lparr>active_topics := remdups topics'\<rparr>;
          w' = w\<lparr>events := events w @ [FilterChanged (active_topics p') (current_chat_id p')]\<rparr>;
          w'' = (if current_chat_id p' \<noteq> [] \<and> active_topics p' \<noteq> [] \<and> embedding_search p'
                 then w'\<lparr>tasks := tasks w' @ [EmitHighlightIds (current_chat_id p')]\<rparr>
                 else w')
      in (p', w'', ''success'', active_topics p'))"

text \<open>
  \<^verbatim>\<open>set_similarity_mode\<close>: \<open>enabled\<close> is the argument when it is a \<^verbatim>\<open>bool\<close>
  (\<open>None\<close> otherwise) and \<open>kw_enabled\<close> is the truth value of \<^verbatim>\<open>enabled\<close> of the
  nested parameters, when they hold one.
\<close>

definition set_similarity_mode ::
  "bool option \<Rightarrow> bool option \<Rightarrow> plugin \<Rightarrow> world \<Rightarrow> plugin \<times> world \<times> string \<times> bool" where
  "set_similarity_mode enabled kw_enabled p w =
     (let enabled' = (case enabled of
                        Some b \<Rightarrow> b
                      | None \<Rightarrow> (case kw_enabled of None \<Rightarrow> True | Some b \<Rightarrow> b));
          p' = p\<lparr>embedding_search := enabled'\<rparr>
      in if \<not> enabled'
         then (p'\<lparr>active_topics := []\<rparr>,
               w\<lparr>events := events w @ [FilterChanged [] (current_chat_id p')]\<rparr>,
               ''success'', embedding_search p')
         else (p', w, ''success'', embedding_search p'))"

text \<open>\<^verbatim>\<open>get_topics\<close>: the topics of a chat and the number of its messages.\<close>

definition get_topics ::
  "env \<Rightarrow> plugin \<Rightarrow> world \<Rightarrow> string \<Rightarrow> string option \<Rightarrow> error + topic list \<times> nat" where
  "get_topics e p w chat_id kw_chat_id =
     (let chat_id' = (if chat_id = []
                      then (case kw_chat_id of None \<Rightarrow> current_chat_id p | Some c \<Rightarrow> c)
                      else chat_id)
      in if chat_id' = [] then Inr ([], 0)
         else (case memory_load_chat e w chat_id' of
                 Inl err \<Rightarrow> Inl err
               | Inr result \<Rightarrow>
                   if result_status result \<noteq> ''success'' then Inr ([], 0)
                   else Inr (result_topics result, length (result_messages result))))"

text \<open>\<^verbatim>\<open>_emit_highlight_ids\<close>, the background task of \<^verbatim>\<open>set_filter\<close>.\<close>

definition emit_highlight_ids :: "env \<Rightarrow> plugin \<Rightarrow> world \<Rightarrow> string \<Rightarrow> world" where
  "emit_highlight_ids e p w chat_id =
     (case memory_load_chat e w chat_id of
        Inl err \<Rightarrow> w\<lparr>log := log w @ [HighlightComputationFailed err]\<rparr>
      | Inr result \<Rightarrow>
          (case compute_relevant_ids e p (files w) chat_id (result_messages result)
                  (collect_sticky_ids (result_topics result)) of
             (Inl err, fl') \<Rightarrow> w\<lparr>files := fl', log := log w @ [HighlightComputationFailed err]\<rparr>
           | (Inr included, fl') \<Rightarrow>
               w\<lparr>files := fl', events := events w @ [HighlightApplied included]\<rparr>))"

section \<open>Notions of the specification\<close>

text \<open>The Topic Set persisted for a chat, and the sticky message ids it lists.\<close>

definition persisted_topics :: "world \<Rightarrow> string \<Rightarrow> topic list" where
  "persisted_topics w chat_id = (case chats w chat_id of None \<Rightarrow> [] | Some d \<Rightarrow> chat_topics d)"

definition sticky_message_ids :: "world \<Rightarrow> string \<Rightarrow> string set" where
  "sticky_message_ids w chat_id = collect_sticky_ids (persisted_topics w chat_id)"

text \<open>
  The score of a message is the maximum cosine similarity between the embedding held
  for its id and the embeddings of the active topics; it reaches the threshold when
  there is such an embedding, the maximum exists and is at least the threshold.
\<close>

definition score_reaches ::
  "real \<Rightarrow> vec list \<Rightarrow> (string \<Rightarrow> vec option) \<Rightarrow> message \<Rightarrow> bool" where
  "score_reaches threshold topic_embeddings cached msg =
     (case cached (get_id msg) of
        None \<Rightarrow> False
      | Some emb \<Rightarrow>
          (case py_max (map (\<lambda>t_emb. cosine_similarity emb t_emb) topic_embeddings) of
             Inl err \<Rightarrow> False
           | Inr max_sim \<Rightarrow> max_sim \<ge> threshold))"

text \<open>The same, with the topic embeddings and message embeddings of one run of the filter.\<close>

definition reaches_threshold ::
  "env \<Rightarrow> plugin \<Rightarrow> world \<Rightarrow> string \<Rightarrow> message list \<Rightarrow> message \<Rightarrow> bool" where
  "reaches_threshold e p w chat_id history msg =
     (case llm_embed e (active_topics p) of
        Inl err \<Rightarrow> False
      | Inr topic_embeddings \<Rightarrow>
          (case resolve_embeddings e p (files w) chat_id history of
             (Some err, fl', cached) \<Rightarrow> False
           | (None, fl', cached) \<Rightarrow>
               score_reaches (similarity_threshold p) topic_embeddings cached msg))"

text \<open>The non-sticky messages of the history whose score reaches the threshold.\<close>

definition non_sticky_selected ::
  "env \<Rightarrow> plugin \<Rightarrow> world \<Rightarrow> pipeline_context \<Rightarrow> message list" where
  "non_sticky_selected e p w ctx =
     (case ctx_metadata ctx ''chat_id'' of
        None \<Rightarrow> []
      | Some chat_id \<Rightarrow>
          filter (\<lambda>m. get_id m \<notin> sticky_message_ids w chat_id
                      \<and> reaches_threshold e p w chat_id (ctx_history ctx) m)
            (ctx_history ctx))"

text \<open>A completion provider whose parsed topic lists never carry a sticky flag.\<close>

definition llm_topics_plain :: "env \<Rightarrow> bool" where
  "llm_topics_plain e =
     (\<forall>raw data. json_loads e raw = Inr data \<longrightarrow> (\<forall>t \<in> set (data_topics data). \<not> sticky t))"

section \<open>Example inputs\<close>

text \<open>
  A chat of three messages, the first one a standing instruction, and a provider
  whose embeddings make the second message similar to the topic \<open>Async\<close>
  (cosine 4/5) and the others orthogonal to it.
\<close>

definition ex_sticky1 :: message where
  "ex_sticky1 = \<lparr>msg_id = Some ''sticky1'', msg_role = Some ''user'', msg_content = Some ''abc''\<rparr>"

definition ex_m1 :: message where
  "ex_m1 = \<lparr>msg_id = Some ''m1'', msg_role = Some ''user'', msg_content = Some ''kot''\<rparr>"

definition ex_m2 :: message where
  "ex_m2 = \<lparr>msg_id = Some ''m2'', msg_role = Some ''user'', msg_content = Some ''bwma''\<rparr>"

definition ex_embed :: "string list \<Rightarrow> error + vec list" where
  "ex_embed texts =
     Inr (map (\<lambda>t. if t = ''Async'' then [1, 0]
                    else if t = ''kot'' then [4 / 5, 3 / 5]
                    else [0, 1]) texts)"

text \<open>
  Five completions: four JSON texts and one that is prose. The parser of the examples
  gives for each JSON text the object \<^verbatim>\<open>json.loads\<close> gives for it, and raises on
  every other text.
\<close>

definition dq :: "string \<Rightarrow> string" where
  "dq s = CHR 0x22 # s @ [CHR 0x22]"

definition ex_completion :: string where
  "ex_completion =
     ''{'' @ dq ''topics'' @ '': [{'' @ dq ''label'' @ '': '' @ dq ''Async'' @ '', ''
       @ dq ''count'' @ '': 2}], '' @ dq ''sticky_message_ids'' @ '': ['' @ dq ''sticky1'' @ '']}''"

definition ex_extraction :: extraction where
  "ex_extraction =
     \<lparr>json_topics = Some [\<lparr>label = Some ''Async'', count = 2, sticky = False, message_ids = []\<rparr>],
      json_sticky_message_ids = Some [''sticky1'']\<rparr>"

definition ex_completion_second :: string where
  "ex_completion_second =
     ''{'' @ dq ''topics'' @ '': [{'' @ dq ''label'' @ '': '' @ dq ''Async'' @ '', ''
       @ dq ''count'' @ '': 3}], '' @ dq ''sticky_message_ids'' @ '': ['' @ dq ''m2'' @ '']}''"

definition ex_extraction_second :: extraction where
  "ex_extraction_second =
     \<lparr>json_topics = Some [\<lparr>label = Some ''Async'', count = 3, sticky = False, message_ids = []\<rparr>],
      json_sticky_message_ids = Some [''m2'']\<rparr>"

definition ex_completion_sticky_topic :: string where
  "ex_completion_sticky_topic =
     ''{'' @ dq ''topics'' @ '': [{'' @ dq ''label'' @ '': '' @ dq ''Async'' @ '', ''
       @ dq ''count'' @ '': 1, '' @ dq ''sticky'' @ '': true, '' @ dq ''message_ids'' @ '': [''
       @ dq ''m2'' @ '']}], '' @ dq ''sticky_message_ids'' @ '': ['' @ dq ''sticky1'' @ '']}''"

definition ex_extraction_sticky_topic :: extraction where
  "ex_extraction_sticky_topic =
     \<lparr>json_topics =
        Some [\<lparr>label = Some ''Async'', count = 1, sticky = True, message_ids = [''m2'']\<rparr>],
      json_sticky_message_ids = Some [''sticky1'']\<rparr>"

definition ex_completion_unlabelled :: string where
  "ex_completion_unlabelled =
     ''{'' @ dq ''topics'' @ '': [{'' @ dq ''name'' @ '': '' @ dq ''Async'' @ '', ''
       @ dq ''count'' @ '': 1}]}''"

definition ex_extraction_unlabelled :: extraction where
  "ex_extraction_unlabelled =
     \<lparr>json_topics = Some [\<lparr>label = None, count = 1, sticky = False, message_ids = []\<rparr>],
      json_sticky_message_ids = None\<rparr>"

definition ex_completion_prose :: string where
  "ex_completion_prose = ''Sure! The main topic is Async.''"

definition ex_json_loads :: "string \<Rightarrow> error + extraction" where
  "ex_json_loads raw =
     (if raw = ex_completion then Inr ex_extraction
      else if raw = ex_completion_second then Inr ex_extraction_second
      else if raw = ex_completion_sticky_topic then Inr ex_extraction_sticky_topic
      else if raw = ex_completion_unlabelled then Inr ex_extraction_unlabelled
      else Inl JSONDecodeError)"

definition ex_env :: env where
  "ex_env =
     \<lparr>llm_embed = ex_embed,
      llm_complete = (\<lambda>msgs category. Inr ex_completion),
      json_loads = ex_json_loads,
      load_fault = (\<lambda>chat_id. None),
      save_fault = (\<lambda>chat_id. None),
      write_fault = (\<lambda>path. None),
      TOPIC_EXTRACTION_PROMPT = ''Analyze this conversation''\<rparr>"

definition ex_topics :: "topic list" where
  "ex_topics =
     [\<lparr>label = Some ''Async'', count = 1, sticky = False, message_ids = []\<rparr>,
      \<lparr>label = Some ''Instructions & Preferences'', count = 1, sticky = True,
       message_ids = [''sticky1'']\<rparr>]"

definition ex_world :: world where
  "ex_world =
     \<lparr>chats = [''c1'' \<mapsto> \<lparr>chat_messages = [ex_sticky1, ex_m1, ex_m2], chat_topics = ex_topics\<rparr>],
      saved = [],
      files = Map.empty,
      log = [],
      events = [],
      tasks = []\<rparr>"

definition ex_config :: config where
  "ex_config =
     \<lparr>cfg_similarity_threshold = None, cfg_embedding_search = None,
      cfg_extraction_category = None\<rparr>"

definition ex_plugin :: "real \<Rightarrow> string list \<Rightarrow> plugin" where
  "ex_plugin threshold topics =
     \<lparr>plugin_config = ex_config,
      vault_path = ''vault'',
      similarity_threshold = threshold,
      embedding_search = True,
      active_topics = topics,
      current_chat_id = ''c1''\<rparr>"

definition ex_env_provider_down :: env where
  "ex_env_provider_down =
     ex_env\<lparr>llm_embed := (\<lambda>texts. Inl ProviderError),
            llm_complete := (\<lambda>msgs category. Inl ProviderError)\<rparr>"


definition ex_env_second :: env where
  "ex_env_second = ex_env\<lparr>llm_complete := (\<lambda>msgs category. Inr ex_completion_second)\<rparr>"

definition ex_env_sticky_topic :: env where
  "ex_env_sticky_topic =
     ex_env\<lparr>llm_complete := (\<lambda>msgs category. Inr ex_completion_sticky_topic)\<rparr>"


definition ex_float_parser :: "string \<Rightarrow> real option" where
  "ex_float_parser s = None"

definition ex_config_high :: config where
  "ex_config_high =
     \<lparr>cfg_similarity_threshold = Some (CFloat (3 / 2)), cfg_embedding_search = None,
      cfg_extraction_category = None\<rparr>"

definition ex_config_negative :: config where
  "ex_config_negative =
     \<lparr>cfg_similarity_threshold = Some (CFloat (- 1 / 2)), cfg_embedding_search = None,
      cfg_extraction_category = None\<rparr>"

definition ex_cache :: EmbeddingCache where
  "ex_cache = EmbeddingCache_init (files ex_world) ''vault/.memory'' ''c1''"

definition ex_ctx :: pipeline_context where
  "ex_ctx =
     \<lparr>ctx_response = [],
      ctx_metadata = [''chat_id'' \<mapsto> ''c1''],
      ctx_history = [ex_sticky1, ex_m1, ex_m2]\<rparr>"

section \<open>Properties\<close>

subsection \<open>Fingerprints of three contents\<close>

lemma fingerprint_kot: "take 8 (md5_hexdigest ''kot'') = ''a986d9ee''"
  by code_simp

lemma fingerprint_bwma: "take 8 (md5_hexdigest ''bwma'') = ''a986d9ee''"
  by code_simp

lemma fingerprint_abc: "take 8 (md5_hexdigest ''abc'') = ''90015098''"
  by code_simp

lemmas ex_defs =
  ex_plugin_def ex_ctx_def ex_env_def ex_world_def ex_topics_def ex_embed_def ex_config_def
  ex_extraction_def ex_sticky1_def ex_m1_def ex_m2_def get_id_def get_content_def
  on_pipeline_context_def filter_history_def memory_load_chat_def memory_save_chat_def
  result_topics_def result_messages_def collect_sticky_ids_def compute_relevant_ids_def
  resolve_embeddings_def lookup_loop_def lookup_step_def
  EmbeddingCache_init_def EmbeddingCache_load_def EmbeddingCache_get_def EmbeddingCache_set_def
  EmbeddingCache_save_def EmbeddingCache_key_def
  fingerprint_kot fingerprint_bwma fingerprint_abc
  py_max_def cosine_similarity_def sum_floats_def Let_def
  persisted_topics_def sticky_message_ids_def score_reaches_def reaches_threshold_def
  non_sticky_selected_def

lemmas ex_run_defs =
  run_topic_extraction_def extraction_body_def extract_topics_def llm_messages_def
  extraction_category_def data_topics_def data_sticky_ids_def sticky_entry_def

subsection \<open>The embedding cache\<close>

lemma key_eq_iff:
  "EmbeddingCache_key i c = EmbeddingCache_key i c'
     \<longleftrightarrow> take 8 (md5_hexdigest c) = take 8 (md5_hexdigest c')"
  by (simp add: EmbeddingCache_key_def)

text \<open>
  Claim C5, as the code has it. \<^verbatim>\<open>get(id, content)\<close> after
  \<^verbatim>\<open>set(id, content, vec)\<close> returns \<open>vec\<close>, whatever the cache held and whether or
  not the write to the file succeeded. For a modified content whose fingerprint (the
  first eight hexadecimal digits of the MD5 digest) differs from the fingerprint of
  the original content, \<^verbatim>\<open>get(id, modified_content)\<close> after the \<^verbatim>\<open>set\<close> returns what
  the cache held for it before: absent, when nothing had been stored for it.
\<close>

theorem cache_get_after_set:
  "EmbeddingCache_get (fst (snd (EmbeddingCache_set faults c i content v fl))) i content = Some v
   \<and> (take 8 (md5_hexdigest content') \<noteq> take 8 (md5_hexdigest content)
        \<longrightarrow> EmbeddingCache_get (fst (snd (EmbeddingCache_set faults c i content v fl))) i content'
              = EmbeddingCache_get c i content')"
  by (simp add: EmbeddingCache_set_def EmbeddingCache_get_def key_eq_iff Let_def
           split: sum.splits)

text \<open>
  On a fresh cache: the vector stored for \<open>kot\<close> is returned for \<open>kot\<close>, and
  \<open>abc\<close>, whose fingerprint is another one, is absent.
\<close>

theorem cache_get_after_set_witness:
  "take 8 (md5_hexdigest ''abc'') \<noteq> take 8 (md5_hexdigest ''kot'')
   \<and> EmbeddingCache_get
        (fst (snd (EmbeddingCache_set (write_fault ex_env) ex_cache
                     ''msg1'' ''kot'' [1 / 10, 1 / 5] (files ex_world))))
        ''msg1'' ''kot'' = Some [1 / 10, 1 / 5]
   \<and> EmbeddingCache_get
        (fst (snd (EmbeddingCache_set (write_fault ex_env) ex_cache
                     ''msg1'' ''kot'' [1 / 10, 1 / 5] (files ex_world))))
        ''msg1'' ''abc'' = None"
proof -
  have h: "take 8 (md5_hexdigest ''abc'') \<noteq> take 8 (md5_hexdigest ''kot'')"
    by (simp add: fingerprint_abc fingerprint_kot)
  have f: "EmbeddingCache_get ex_cache ''msg1'' ''abc'' = None"
    by (simp add: ex_cache_def ex_world_def EmbeddingCache_get_def EmbeddingCache_init_def
          EmbeddingCache_load_def Let_def)
  from cache_get_after_set [of "write_fault ex_env" ex_cache "''msg1''" "''kot''"
         "[1 / 10, 1 / 5]" "files ex_world" "''abc''"] h f
  show ?thesis by simp
qed

text \<open>
  The claim as stated fails: \<open>bwma\<close> differs from \<open>kot\<close> and has the same
  fingerprint \<open>a986d9ee\<close>, so that on a fresh cache \<^verbatim>\<open>get("msg1", "bwma")\<close> after
  \<^verbatim>\<open>set("msg1", "kot", vec)\<close> returns \<open>vec\<close>.
\<close>

theorem cache_stale_hit_counterexample:
  "''bwma'' \<noteq> ''kot''
   \<and> EmbeddingCache_get
        (fst (snd (EmbeddingCache_set (write_fault ex_env) ex_cache
                     ''msg1'' ''kot'' [1 / 10, 1 / 5] (files ex_world))))
        ''msg1'' ''bwma'' = Some [1 / 10, 1 / 5]"
  by (simp add: EmbeddingCache_set_def EmbeddingCache_get_def EmbeddingCache_key_def
        EmbeddingCache_save_def EmbeddingCache_init_def EmbeddingCache_load_def Let_def
        ex_cache_def ex_world_def ex_env_def fingerprint_kot fingerprint_bwma)

subsection \<open>Configuration\<close>

text \<open>
  Claim C7, as the code has it. \<^verbatim>\<open>__init__\<close> converts the configured
  \<^verbatim>\<open>similarity_threshold\<close> with \<^verbatim>\<open>float\<close> and checks no range: every number is
  accepted and stored as it is, inside the interval from 0 to 1 or outside, neither
  rejected nor clamped.
\<close>

theorem threshold_not_validated:
  assumes "cfg_similarity_threshold cfg = Some (CFloat v)"
  shows "\<exists>p. Plugin_init parse vault cfg = Inr p \<and> similarity_threshold p = v"
  using assms by (simp add: Plugin_init_def py_float_def)

theorem threshold_not_validated_witness:
  "cfg_similarity_threshold ex_config_negative = Some (CFloat (- 1 / 2))
   \<and> (\<exists>p. Plugin_init ex_float_parser ''vault'' ex_config_negative = Inr p
          \<and> similarity_threshold p = - 1 / 2)"
proof -
  have h: "cfg_similarity_threshold ex_config_negative = Some (CFloat (- 1 / 2))"
    by (simp add: ex_config_negative_def)
  from threshold_not_validated [OF h] h show ?thesis by blast
qed

text \<open>The claim as stated fails: the threshold 3/2 is loaded without an error.\<close>

theorem threshold_out_of_range_counterexample:
  "(3 / 2 :: real) \<notin> {0..1}
   \<and> Plugin_init ex_float_parser ''vault'' ex_config_high
       = Inr \<lparr>plugin_config = ex_config_high,
              vault_path = ''vault'',
              similarity_threshold = 3 / 2,
              embedding_search = True,
              active_topics = [],
              current_chat_id = []\<rparr>"
  by (simp add: Plugin_init_def py_float_def py_bool_def ex_config_high_def)

subsection \<open>The context filter\<close>

lemma score_reaches_cong:
  "get_id m = get_id m' \<Longrightarrow> score_reaches thr te cached m = score_reaches thr te cached m'"
  by (simp add: score_reaches_def)

text \<open>The third loop returns the ids of the sticky messages and of those whose score reaches the threshold, in the order of the history.\<close>

lemma score_loop_result:
  "score_loop thr te st cached acc msgs = Inr inc \<Longrightarrow>
   inc = acc @ map get_id (filter (\<lambda>m. get_id m \<in> st \<or> score_reaches thr te cached m) msgs)"
proof (induction msgs arbitrary: acc)
  case Nil
  then show ?case by simp
next
  case (Cons m msgs)
  show ?case
  proof (cases "get_id m \<in> st")
    case True
    with Cons.prems have "score_loop thr te st cached (acc @ [get_id m]) msgs = Inr inc" by simp
    from Cons.IH [OF this] True show ?thesis by simp
  next
    case False
    show ?thesis
    proof (cases "cached (get_id m)")
      case None
      with False Cons.prems have "score_loop thr te st cached acc msgs = Inr inc" by simp
      from Cons.IH [OF this] False None show ?thesis by (simp add: score_reaches_def)
    next
      case (Some emb)
      show ?thesis
      proof (cases "py_max (map (\<lambda>t_emb. cosine_similarity emb t_emb) te)")
        case (Inl err)
        with False Some Cons.prems show ?thesis by simp
      next
        case (Inr max_sim)
        show ?thesis
        proof (cases "max_sim \<ge> thr")
          case True
          with False Some Inr Cons.prems
          have "score_loop thr te st cached (acc @ [get_id m]) msgs = Inr inc" by simp
          from Cons.IH [OF this] False Some Inr True show ?thesis
            by (simp add: score_reaches_def)
        next
          case no: False
          with False Some Inr Cons.prems
          have "score_loop thr te st cached acc msgs = Inr inc" by simp
          from Cons.IH [OF this] False Some Inr no show ?thesis
            by (simp add: score_reaches_def)
        qed
      qed
    qed
  qed
qed

lemma score_loop_ignores_sticky:
  "score_loop thr te st (\<lambda>i. if i \<in> st then None else cached i) acc msgs
     = score_loop thr te st cached acc msgs"
  by (induction msgs arbitrary: acc) (simp_all split: option.splits sum.splits)

lemma load_result_topics:
  "memory_load_chat e w chat_id = Inr r \<Longrightarrow> result_topics r = persisted_topics w chat_id"
  by (auto simp: memory_load_chat_def result_topics_def persisted_topics_def
           split: option.splits)

lemma compute_relevant_ids_Inr:
  assumes "compute_relevant_ids e p (files w) chat_id history st = (Inr included, fl')"
  shows "included = map get_id (filter (\<lambda>m. get_id m \<in> st
            \<or> reaches_threshold e p w chat_id history m) history)"
proof -
  from assms obtain te where te: "llm_embed e (active_topics p) = Inr te"
    by (auto simp: compute_relevant_ids_def split: sum.splits)
  from assms te obtain cached where
    re: "resolve_embeddings e p (files w) chat_id history = (None, fl', cached)"
    and sl: "score_loop (similarity_threshold p) te st cached [] history = Inr included"
    by (auto simp: compute_relevant_ids_def split: prod.splits option.splits)
  have "reaches_threshold e p w chat_id history m
          = score_reaches (similarity_threshold p) te cached m" for m
    by (simp add: reaches_threshold_def te re)
  with score_loop_result [OF sl] show ?thesis by simp
qed

lemma filter_by_selected_ids:
  assumes "\<And>m m'. get_id m = get_id m' \<Longrightarrow> P m' \<Longrightarrow> P m"
  shows "filter (\<lambda>m. get_id m \<in> set (map get_id (filter P xs))) xs = filter P xs"
proof (rule filter_cong [OF refl])
  fix m assume m: "m \<in> set xs"
  show "(get_id m \<in> set (map get_id (filter P xs))) = P m"
  proof
    assume "get_id m \<in> set (map get_id (filter P xs))"
    then obtain m' where "get_id m = get_id m'" and "P m'" by auto
    then show "P m" by (rule assms)
  next
    assume "P m"
    with m have "m \<in> set (filter P xs)" by simp
    then show "get_id m \<in> set (map get_id (filter P xs))" by simp
  qed
qed

lemma reaches_threshold_cong:
  assumes "get_id m = get_id m'"
  shows "reaches_threshold e p w chat_id history m = reaches_threshold e p w chat_id history m'"
  unfolding reaches_threshold_def score_reaches_def assms ..

text \<open>
  What the body of the \<^verbatim>\<open>try\<close> assigns to the history when it raises nothing: the
  history itself when no non-sticky message is selected, and otherwise the messages
  that are sticky or selected.
\<close>

lemma filter_history_Inr:
  assumes "filter_history e p w chat_id history = (Inr h, fl')"
  shows "h = (if filter (\<lambda>m. get_id m \<notin> sticky_message_ids w chat_id
                          \<and> reaches_threshold e p w chat_id history m) history = []
              then history
              else filter (\<lambda>m. get_id m \<in> sticky_message_ids w chat_id
                          \<or> reaches_threshold e p w chat_id history m) history)"
proof -
  let ?S = "sticky_message_ids w chat_id"
  let ?R = "reaches_threshold e p w chat_id history"
  let ?P = "\<lambda>m. get_id m \<in> ?S \<or> ?R m"
  from assms obtain r where r: "memory_load_chat e w chat_id = Inr r"
    by (auto simp: filter_history_def split: sum.splits)
  have st: "collect_sticky_ids (result_topics r) = ?S"
    by (simp add: sticky_message_ids_def load_result_topics [OF r])
  from assms r st obtain included where
    ci: "compute_relevant_ids e p (files w) chat_id history ?S = (Inr included, fl')"
    and h: "h = (if filter (\<lambda>i. i \<notin> ?S) included = [] then history
                 else filter (\<lambda>m. get_id m \<in> set included) history)"
    by (auto simp: filter_history_def Let_def split: prod.splits sum.splits if_splits)
  have inc: "included = map get_id (filter ?P history)"
    by (rule compute_relevant_ids_Inr [OF ci])
  have ns: "filter (\<lambda>i. i \<notin> ?S) included
              = map get_id (filter (\<lambda>m. get_id m \<notin> ?S \<and> ?R m) history)"
    unfolding inc by (auto simp: filter_map o_def intro!: arg_cong [where f = "map get_id"] filter_cong)
  have sel: "filter (\<lambda>m. get_id m \<in> set included) history = filter ?P history"
    unfolding inc
  proof (rule filter_by_selected_ids)
    fix m m' :: message
    assume "get_id m = get_id m'" and "get_id m' \<in> ?S \<or> ?R m'"
    then show "get_id m \<in> ?S \<or> ?R m"
      using reaches_threshold_cong [of m m' e p w chat_id history] by simp
  qed
  show ?thesis unfolding h ns sel by simp
qed

text \<open>The history after the filter is the history before it, or what the \<^verbatim>\<open>try\<close> assigned.\<close>

lemma on_pipeline_context_history:
  "ctx_history (fst (on_pipeline_context e p w ctx)) = ctx_history ctx
   \<or> (\<exists>chat_id h fl'. ctx_metadata ctx ''chat_id'' = Some chat_id
        \<and> filter_history e p w chat_id (ctx_history ctx) = (Inr h, fl')
        \<and> ctx_history (fst (on_pipeline_context e p w ctx)) = h)"
  by (auto simp: on_pipeline_context_def split: option.splits prod.splits sum.splits)

lemma provider_error_raised:
  assumes "load_fault e chat_id = None" and "llm_embed e (active_topics p) = Inl err"
  shows "filter_history e p w chat_id history = (Inl err, files w)"
  using assms
  by (simp add: filter_history_def memory_load_chat_def compute_relevant_ids_def
           split: option.splits)

lemma store_error_raised:
  assumes "load_fault e chat_id = Some err"
  shows "filter_history e p w chat_id history = (Inl err, files w)"
  using assms by (simp add: filter_history_def memory_load_chat_def)

lemma ex_filtered:
  "ctx_history (fst (on_pipeline_context ex_env (ex_plugin (7 / 10) [''Async'']) ex_world ex_ctx))
     = [ex_sticky1, ex_m1]"
  by (simp add: ex_defs)

text \<open>
  Claim C1 (fallback rule). For every history, every set of active topics and every
  threshold: when no non-sticky message of the history has a score that reaches the
  threshold, the history that leaves the filter is the history that entered it.
\<close>

theorem fallback_rule:
  assumes "non_sticky_selected e p w ctx = []"
  shows "ctx_history (fst (on_pipeline_context e p w ctx)) = ctx_history ctx"
  using on_pipeline_context_history [of e p w ctx]
proof
  assume "ctx_history (fst (on_pipeline_context e p w ctx)) = ctx_history ctx"
  then show ?thesis .
next
  assume "\<exists>chat_id h fl'. ctx_metadata ctx ''chat_id'' = Some chat_id
        \<and> filter_history e p w chat_id (ctx_history ctx) = (Inr h, fl')
        \<and> ctx_history (fst (on_pipeline_context e p w ctx)) = h"
  then obtain chat_id h fl' where
    c: "ctx_metadata ctx ''chat_id'' = Some chat_id"
    and f: "filter_history e p w chat_id (ctx_history ctx) = (Inr h, fl')"
    and o: "ctx_history (fst (on_pipeline_context e p w ctx)) = h"
    by blast
  from assms c have "filter (\<lambda>m. get_id m \<notin> sticky_message_ids w chat_id
        \<and> reaches_threshold e p w chat_id (ctx_history ctx) m) (ctx_history ctx) = []"
    by (simp add: non_sticky_selected_def)
  with filter_history_Inr [OF f] o show ?thesis by simp
qed

text \<open>
  With the threshold 99/100 the best score of a non-sticky message, 4/5, is too low,
  and all three messages stay.
\<close>

theorem fallback_rule_witness:
  "non_sticky_selected ex_env (ex_plugin (99 / 100) [''Async'']) ex_world ex_ctx = []
   \<and> ctx_history (fst (on_pipeline_context ex_env (ex_plugin (99 / 100) [''Async'']) ex_world ex_ctx))
       = [ex_sticky1, ex_m1, ex_m2]"
proof -
  have h: "non_sticky_selected ex_env (ex_plugin (99 / 100) [''Async'']) ex_world ex_ctx = []"
    by (simp add: ex_defs)
  from fallback_rule [OF h] h show ?thesis
    by (simp add: ex_ctx_def)
qed

text \<open>
  Claim C2 (no-op gate). When similarity mode is off or no topic is active, the filter
  changes nothing: the context, and with it the history, is returned as it was, and
  nothing outside the plugin is touched.
\<close>

theorem no_op_gate:
  assumes "active_topics p = [] \<or> \<not> embedding_search p"
  shows "on_pipeline_context e p w ctx = (ctx, w)"
  using assms by (auto simp: on_pipeline_context_def)

theorem no_op_gate_witness:
  "active_topics (ex_plugin (7 / 10) []) = []
   \<and> ctx_history (fst (on_pipeline_context ex_env (ex_plugin (7 / 10) []) ex_world ex_ctx))
       = [ex_sticky1, ex_m1, ex_m2]"
proof -
  have h: "active_topics (ex_plugin (7 / 10) []) = []
             \<or> \<not> embedding_search (ex_plugin (7 / 10) [])"
    by (simp add: ex_plugin_def)
  from no_op_gate [OF h, of ex_env ex_world ex_ctx] show ?thesis
    by (simp add: ex_ctx_def ex_plugin_def)
qed

text \<open>
  Claim C3 (sticky inclusion). Every message of the history whose id is among the
  sticky message ids of the persisted Topic Set is in the history that leaves the
  filter, for every provider, cache and threshold. Sticky messages are not scored:
  the scoring loop returns the same result when the embeddings held for the sticky
  ids are taken away.
\<close>

theorem sticky_inclusion:
  assumes "ctx_metadata ctx ''chat_id'' = Some chat_id"
    and "m \<in> set (ctx_history ctx)"
    and "get_id m \<in> sticky_message_ids w chat_id"
  shows "m \<in> set (ctx_history (fst (on_pipeline_context e p w ctx)))
         \<and> score_loop (similarity_threshold p) te (sticky_message_ids w chat_id)
              (\<lambda>i. if i \<in> sticky_message_ids w chat_id then None else cached i) [] (ctx_history ctx)
             = score_loop (similarity_threshold p) te (sticky_message_ids w chat_id)
                 cached [] (ctx_history ctx)"
proof
  from on_pipeline_context_history [of e p w ctx]
  show "m \<in> set (ctx_history (fst (on_pipeline_context e p w ctx)))"
  proof
    assume "ctx_history (fst (on_pipeline_context e p w ctx)) = ctx_history ctx"
    with assms(2) show ?thesis by simp
  next
    assume "\<exists>chat_id h fl'. ctx_metadata ctx ''chat_id'' = Some chat_id
        \<and> filter_history e p w chat_id (ctx_history ctx) = (Inr h, fl')
        \<and> ctx_history (fst (on_pipeline_context e p w ctx)) = h"
    with assms(1) obtain h fl' where
      f: "filter_history e p w chat_id (ctx_history ctx) = (Inr h, fl')"
      and o: "ctx_history (fst (on_pipeline_context e p w ctx)) = h"
      by auto
    from filter_history_Inr [OF f] o assms(2,3) show ?thesis
      by (simp split: if_splits)
  qed
next
  show "score_loop (similarity_threshold p) te (sticky_message_ids w chat_id)
              (\<lambda>i. if i \<in> sticky_message_ids w chat_id then None else cached i) [] (ctx_history ctx)
             = score_loop (similarity_threshold p) te (sticky_message_ids w chat_id)
                 cached [] (ctx_history ctx)"
    by (rule score_loop_ignores_sticky)
qed

text \<open>
  The standing instruction \<open>sticky1\<close> has similarity 0 to the topic, below the
  threshold 1/2, and is kept.
\<close>

theorem sticky_inclusion_witness:
  "ctx_metadata ex_ctx ''chat_id'' = Some ''c1''
   \<and> ex_sticky1 \<in> set (ctx_history ex_ctx)
   \<and> get_id ex_sticky1 \<in> sticky_message_ids ex_world ''c1''
   \<and> \<not> score_reaches (1 / 2) [[1, 0]] [''sticky1'' \<mapsto> [0, 1]] ex_sticky1
   \<and> ex_sticky1 \<in> set (ctx_history (fst (on_pipeline_context ex_env (ex_plugin (1 / 2) [''Async''])
                                        ex_world ex_ctx)))"
proof -
  have a: "ctx_metadata ex_ctx ''chat_id'' = Some ''c1''" by (simp add: ex_ctx_def)
  have b: "ex_sticky1 \<in> set (ctx_history ex_ctx)" by (simp add: ex_ctx_def)
  have c: "get_id ex_sticky1 \<in> sticky_message_ids ex_world ''c1''" by (simp add: ex_defs)
  have d: "\<not> score_reaches (1 / 2) [[1, 0]] [''sticky1'' \<mapsto> [0, 1]] ex_sticky1"
    by (simp add: ex_defs)
  from sticky_inclusion [OF a b c, of ex_env "ex_plugin (1 / 2) [''Async'']"] a b c d
  show ?thesis by simp
qed

text \<open>
  Claim C4 (order and shape). The history that leaves the filter is a subsequence of
  the history that entered it: the messages kept stay in their order, none is
  repeated and none is added, whatever ids the Topic Set lists as sticky.
\<close>

theorem filter_output_subseq:
  "subseq (ctx_history (fst (on_pipeline_context e p w ctx))) (ctx_history ctx)"
  using on_pipeline_context_history [of e p w ctx]
proof
  assume "ctx_history (fst (on_pipeline_context e p w ctx)) = ctx_history ctx"
  then show ?thesis by simp
next
  assume "\<exists>chat_id h fl'. ctx_metadata ctx ''chat_id'' = Some chat_id
        \<and> filter_history e p w chat_id (ctx_history ctx) = (Inr h, fl')
        \<and> ctx_history (fst (on_pipeline_context e p w ctx)) = h"
  then obtain chat_id h fl' where
    f: "filter_history e p w chat_id (ctx_history ctx) = (Inr h, fl')"
    and o: "ctx_history (fst (on_pipeline_context e p w ctx)) = h"
    by blast
  from filter_history_Inr [OF f] o show ?thesis
    by (simp split: if_splits)
qed

text \<open>With the threshold 7/10 the filter keeps the sticky message and \<open>m1\<close>, in this order.\<close>

theorem filter_output_subseq_witness:
  "ctx_history (fst (on_pipeline_context ex_env (ex_plugin (7 / 10) [''Async'']) ex_world ex_ctx))
     = [ex_sticky1, ex_m1]
   \<and> subseq [ex_sticky1, ex_m1] (ctx_history ex_ctx)"
  using filter_output_subseq [of ex_env "ex_plugin (7 / 10) [''Async'']" ex_world ex_ctx]
  by (simp only: ex_filtered)

text \<open>
  Claim C8 (error degradation). When the body of the filter raises, whatever the
  exception and whoever raised it, the filter returns with the context, and so the
  history, exactly as it received them; the exception is logged.
\<close>

theorem filter_error_degradation:
  assumes "ctx_metadata ctx ''chat_id'' = Some chat_id"
    and "filter_history e p w chat_id (ctx_history ctx) = (Inl err, fl')"
  shows "fst (on_pipeline_context e p w ctx) = ctx
         \<and> (active_topics p \<noteq> [] \<and> embedding_search p \<and> chat_id \<noteq> [] \<and> ctx_history ctx \<noteq> []
              \<longrightarrow> snd (on_pipeline_context e p w ctx)
                    = w\<lparr>files := fl', log := log w @ [ContextInjectionFailed err]\<rparr>)"
  using assms by (simp add: on_pipeline_context_def)

text \<open>An embedding provider that is down: the three messages stay and the failure is logged.\<close>

theorem filter_error_degradation_witness:
  "ctx_metadata ex_ctx ''chat_id'' = Some ''c1''
   \<and> filter_history ex_env_provider_down (ex_plugin (7 / 10) [''Async'']) ex_world ''c1''
        (ctx_history ex_ctx) = (Inl ProviderError, files ex_world)
   \<and> fst (on_pipeline_context ex_env_provider_down (ex_plugin (7 / 10) [''Async''])
             ex_world ex_ctx) = ex_ctx
   \<and> log (snd (on_pipeline_context ex_env_provider_down (ex_plugin (7 / 10) [''Async''])
                  ex_world ex_ctx))
       = [ContextInjectionFailed ProviderError]"
proof -
  let ?p = "ex_plugin (7 / 10) [''Async'']"
  have a: "ctx_metadata ex_ctx ''chat_id'' = Some ''c1''" by (simp add: ex_ctx_def)
  have b: "filter_history ex_env_provider_down ?p ex_world ''c1'' (ctx_history ex_ctx)
             = (Inl ProviderError, files ex_world)"
    by (rule provider_error_raised) (simp_all add: ex_env_provider_down_def ex_env_def)
  from filter_error_degradation [OF a b] a b show ?thesis
    by (simp add: ex_plugin_def ex_ctx_def ex_world_def)
qed

subsection \<open>Topic extraction\<close>

lemmas ex_json_defs =
  ex_json_loads_def ex_completion_def ex_completion_second_def ex_completion_sticky_topic_def
  ex_completion_unlabelled_def ex_completion_prose_def dq_def
  strip_fence_def py_strip_def isspace_def fence_def drop_first_line_def Let_def numeral_3_eq_3

lemma ex_parse_first: "json_loads ex_env (strip_fence ex_completion) = Inr ex_extraction"
  by (simp add: ex_env_def ex_json_defs)

lemma ex_parse_second:
  "json_loads ex_env_second (strip_fence ex_completion_second) = Inr ex_extraction_second"
  by (simp add: ex_env_second_def ex_env_def ex_json_defs)

lemma ex_parse_sticky_topic:
  "json_loads ex_env_sticky_topic (strip_fence ex_completion_sticky_topic)
     = Inr ex_extraction_sticky_topic"
  by (simp add: ex_env_sticky_topic_def ex_env_def ex_json_defs)




lemma extract_topics_succeeds:
  assumes "llm_complete e (llm_messages e messages) (extraction_category p) = Inr content"
    and "json_loads e (strip_fence content) = Inr data"
  shows "extract_topics e p messages
           = Inr (data_topics data @
                  (if data_sticky_ids data = [] then [] else [sticky_entry (data_sticky_ids data)]))"
  using assms by (simp add: extract_topics_def Let_def)

lemma sticky_of_extracted:
  assumes "\<forall>t \<in> set ts. \<not> sticky t"
  shows "filter sticky (ts @ (if ids = [] then [] else [sticky_entry ids]))
           = (if ids = [] then [] else [sticky_entry ids])"
  using assms by (simp add: sticky_entry_def)

text \<open>
  Once the topics are extracted and the save command has not raised, the chat
  document holds them, whether or not the success message can be formatted.
\<close>

lemma extraction_saves:
  assumes "load_fault e chat_id = None"
    and "save_fault e chat_id = None"
    and "chats w chat_id = Some d"
    and "chat_messages d \<noteq> []"
    and "extract_topics e p (chat_messages d) = Inr ts"
  shows "chats (snd (run_topic_extraction e p w chat_id))
           = (chats w)(chat_id \<mapsto> d\<lparr>chat_topics := ts\<rparr>)
         \<and> saved (snd (run_topic_extraction e p w chat_id))
             = saved w @ [(chat_id, d\<lparr>chat_topics := ts\<rparr>)]
         \<and> log (snd (run_topic_extraction e p w chat_id))
             = log w @ [case topic_labels ts of
                          Inl err \<Rightarrow> TopicExtractionFailed chat_id err
                        | Inr labels \<Rightarrow> TopicsExtracted chat_id labels]"
  using assms
  by (cases "topic_labels ts")
     (simp_all add: run_topic_extraction_def extraction_body_def memory_load_chat_def
        memory_save_chat_def Let_def)

text \<open>A successful extraction persists the topics of the completion, and the sticky entry after them.\<close>

lemma extraction_persists:
  assumes "load_fault e chat_id = None"
    and "save_fault e chat_id = None"
    and "chats w chat_id = Some d"
    and "chat_messages d \<noteq> []"
    and "llm_complete e (llm_messages e (chat_messages d)) (extraction_category p) = Inr content"
    and "json_loads e (strip_fence content) = Inr data"
  shows "persisted_topics (snd (run_topic_extraction e p w chat_id)) chat_id
           = data_topics data @
             (if data_sticky_ids data = [] then [] else [sticky_entry (data_sticky_ids data)])"
proof -
  let ?ts = "data_topics data @
             (if data_sticky_ids data = [] then [] else [sticky_entry (data_sticky_ids data)])"
  have ex: "extract_topics e p (chat_messages d) = Inr ?ts"
    by (rule extract_topics_succeeds) (rule assms(5), rule assms(6))
  from extraction_saves [OF assms(1-4) ex] show ?thesis
    by (simp add: persisted_topics_def)
qed

lemma run_extractions_snoc:
  "run_extractions (es @ [e]) p w chat_id
     = (case run_extractions es p w chat_id of (p', w') \<Rightarrow> run_topic_extraction e p' w' chat_id)"
  by (induction es arbitrary: p w) (auto split: prod.splits)




text \<open>
  Claim C9, as the code has it. After any number of earlier extractions, a successful
  extraction whose completion lists no topic flagged sticky replaces the Topic Set by
  the topics of this completion, followed, when ids were flagged, by one sticky
  entry: the Topic Set then has at most one sticky entry, and when ids were flagged
  the \<open>message_ids\<close> of that entry are the ids this extraction flagged and its
  \<open>count\<close> is their number. Nothing of the earlier Topic Set remains.
\<close>

theorem extraction_replaces_topic_set:
  assumes "run_extractions es p0 w0 chat_id = (p, w)"
    and "load_fault e chat_id = None"
    and "save_fault e chat_id = None"
    and "chats w chat_id = Some d"
    and "chat_messages d \<noteq> []"
    and "llm_complete e (llm_messages e (chat_messages d)) (extraction_category p) = Inr content"
    and "json_loads e (strip_fence content) = Inr data"
    and "\<forall>t \<in> set (data_topics data). \<not> sticky t"
  shows "persisted_topics (snd (run_extractions (es @ [e]) p0 w0 chat_id)) chat_id
           = data_topics data @
             (if data_sticky_ids data = [] then [] else [sticky_entry (data_sticky_ids data)])
         \<and> length (filter sticky
                     (persisted_topics (snd (run_extractions (es @ [e]) p0 w0 chat_id)) chat_id))
             \<le> 1
         \<and> (data_sticky_ids data \<noteq> [] \<longrightarrow>
              (\<exists>t. filter sticky
                      (persisted_topics (snd (run_extractions (es @ [e]) p0 w0 chat_id)) chat_id)
                     = [t]
                   \<and> message_ids t = data_sticky_ids data
                   \<and> count t = int (length (message_ids t))))"
proof -
  let ?ts = "data_topics data @
             (if data_sticky_ids data = [] then [] else [sticky_entry (data_sticky_ids data)])"
  have "run_extractions (es @ [e]) p0 w0 chat_id = run_topic_extraction e p w chat_id"
    by (simp add: run_extractions_snoc assms(1))
  then have pt: "persisted_topics (snd (run_extractions (es @ [e]) p0 w0 chat_id)) chat_id = ?ts"
    using extraction_persists [OF assms(2-7)] by simp
  have fs: "filter sticky ?ts
              = (if data_sticky_ids data = [] then [] else [sticky_entry (data_sticky_ids data)])"
    by (rule sticky_of_extracted) (rule assms(8))
  show ?thesis
    unfolding pt fs by (simp add: sticky_entry_def)
qed

lemma ex_first_extraction:
  "chats (snd (run_extractions [ex_env] (ex_plugin (2 / 5) []) ex_world ''c1'')) ''c1''
     = Some \<lparr>chat_messages = [ex_sticky1, ex_m1, ex_m2],
             chat_topics =
               [\<lparr>label = Some ''Async'', count = 2, sticky = False, message_ids = []\<rparr>,
                \<lparr>label = Some ''Instructions & Preferences'', count = 1, sticky = True,
                 message_ids = [''sticky1'']\<rparr>]\<rparr>"
proof -
  let ?p = "ex_plugin (2 / 5) []"
  let ?d = "\<lparr>chat_messages = [ex_sticky1, ex_m1, ex_m2], chat_topics = ex_topics\<rparr>"
  have l: "load_fault ex_env ''c1'' = None" by (simp add: ex_env_def)
  have s: "save_fault ex_env ''c1'' = None" by (simp add: ex_env_def)
  have c: "chats ex_world ''c1'' = Some ?d" by (simp add: ex_world_def)
  have m: "chat_messages ?d \<noteq> []" by simp
  have lc: "llm_complete ex_env (llm_messages ex_env (chat_messages ?d)) (extraction_category ?p)
              = Inr ex_completion"
    by (simp add: ex_env_def)
  have ex: "extract_topics ex_env ?p (chat_messages ?d)
              = Inr [\<lparr>label = Some ''Async'', count = 2, sticky = False, message_ids = []\<rparr>,
                     \<lparr>label = Some ''Instructions & Preferences'', count = 1, sticky = True,
                      message_ids = [''sticky1'']\<rparr>]"
    using extract_topics_succeeds [OF lc ex_parse_first]
    by (simp add: data_topics_def data_sticky_ids_def ex_extraction_def sticky_entry_def)
  from extraction_saves [OF l s c m ex] show ?thesis by simp
qed

text \<open>
  Two extractions: the first flags \<open>sticky1\<close>, the second flags \<open>m2\<close>; the Topic
  Set then holds one sticky entry, with \<open>m2\<close> alone.
\<close>

theorem extraction_replaces_topic_set_witness:
  "persisted_topics
     (snd (run_extractions ([ex_env] @ [ex_env_second]) (ex_plugin (2 / 5) []) ex_world ''c1''))
     ''c1''
     = [\<lparr>label = Some ''Async'', count = 3, sticky = False, message_ids = []\<rparr>,
        \<lparr>label = Some ''Instructions & Preferences'', count = 1, sticky = True,
         message_ids = [''m2'']\<rparr>]
   \<and> length (filter sticky
        (persisted_topics
           (snd (run_extractions ([ex_env] @ [ex_env_second]) (ex_plugin (2 / 5) []) ex_world ''c1''))
           ''c1'')) \<le> 1"
proof -
  obtain p w where r: "run_extractions [ex_env] (ex_plugin (2 / 5) []) ex_world ''c1'' = (p, w)"
    by (cases "run_extractions [ex_env] (ex_plugin (2 / 5) []) ex_world ''c1''")
  let ?d = "\<lparr>chat_messages = [ex_sticky1, ex_m1, ex_m2],
             chat_topics =
               [\<lparr>label = Some ''Async'', count = 2, sticky = False, message_ids = []\<rparr>,
                \<lparr>label = Some ''Instructions & Preferences'', count = 1, sticky = True,
                 message_ids = [''sticky1'']\<rparr>]\<rparr>"
  have l: "load_fault ex_env_second ''c1'' = None" by (simp add: ex_env_second_def ex_env_def)
  have s: "save_fault ex_env_second ''c1'' = None" by (simp add: ex_env_second_def ex_env_def)
  have c: "chats w ''c1'' = Some ?d" using ex_first_extraction r by simp
  have m: "chat_messages ?d \<noteq> []" by simp
  have lc: "llm_complete ex_env_second (llm_messages ex_env_second (chat_messages ?d))
              (extraction_category p) = Inr ex_completion_second"
    by (simp add: ex_env_second_def ex_env_def)
  have n: "\<forall>t \<in> set (data_topics ex_extraction_second). \<not> sticky t"
    by (simp add: data_topics_def ex_extraction_second_def)
  from extraction_replaces_topic_set [OF r l s c m lc ex_parse_second n] show ?thesis
    by (simp add: data_topics_def data_sticky_ids_def ex_extraction_second_def sticky_entry_def)
qed

text \<open>
  The claim as stated fails: a completion whose topic list holds an entry flagged
  sticky, beside one flagged id, leaves a Topic Set with two sticky entries, and the
  filter takes the ids of both as sticky.
\<close>

theorem two_sticky_entries_counterexample:
  "length (filter sticky
     (persisted_topics
        (snd (run_topic_extraction ex_env_sticky_topic (ex_plugin (2 / 5) []) ex_world ''c1''))
        ''c1'')) = 2
   \<and> sticky_message_ids
       (snd (run_topic_extraction ex_env_sticky_topic (ex_plugin (2 / 5) []) ex_world ''c1''))
       ''c1'' = {''sticky1'', ''m2''}"
proof -
  let ?e = "ex_env_sticky_topic"
  let ?p = "ex_plugin (2 / 5) []"
  let ?d = "\<lparr>chat_messages = [ex_sticky1, ex_m1, ex_m2], chat_topics = ex_topics\<rparr>"
  have l: "load_fault ?e ''c1'' = None" by (simp add: ex_env_sticky_topic_def ex_env_def)
  have s: "save_fault ?e ''c1'' = None" by (simp add: ex_env_sticky_topic_def ex_env_def)
  have c: "chats ex_world ''c1'' = Some ?d" by (simp add: ex_world_def)
  have m: "chat_messages ?d \<noteq> []" by simp
  have lc: "llm_complete ?e (llm_messages ?e (chat_messages ?d)) (extraction_category ?p)
              = Inr ex_completion_sticky_topic"
    by (simp add: ex_env_sticky_topic_def ex_env_def)
  from extraction_persists [OF l s c m lc ex_parse_sticky_topic] show ?thesis
    by (simp add: data_topics_def data_sticky_ids_def ex_extraction_sticky_topic_def
          sticky_entry_def sticky_message_ids_def collect_sticky_ids_def)
qed

text \<open>
  With completion providers whose topic lists carry no sticky flag, a Topic Set with
  at most one sticky entry keeps at most one through any sequence of extractions,
  failed or successful.
\<close>

lemma extraction_unchanged_or_saved:
  "persisted_topics (snd (run_topic_extraction e p w chat_id)) chat_id
     = persisted_topics w chat_id
   \<or> (\<exists>d content data.
         load_fault e chat_id = None \<and> save_fault e chat_id = None \<and> chats w chat_id = Some d
         \<and> chat_messages d \<noteq> []
         \<and> llm_complete e (llm_messages e (chat_messages d)) (extraction_category p) = Inr content
         \<and> json_loads e (strip_fence content) = Inr data)"
  by (auto simp: run_topic_extraction_def extraction_body_def memory_load_chat_def
        memory_save_chat_def extract_topics_def persisted_topics_def Let_def
        split: option.splits sum.splits if_splits)

lemma run_topic_extraction_sticky:
  assumes "llm_topics_plain e"
    and "length (filter sticky (persisted_topics w chat_id)) \<le> 1"
  shows "length (filter sticky (persisted_topics (snd (run_topic_extraction e p w chat_id)) chat_id))
           \<le> 1"
  using extraction_unchanged_or_saved [of e p w chat_id]
proof
  assume "persisted_topics (snd (run_topic_extraction e p w chat_id)) chat_id
            = persisted_topics w chat_id"
  with assms(2) show ?thesis by simp
next
  assume "\<exists>d content data.
         load_fault e chat_id = None \<and> save_fault e chat_id = None \<and> chats w chat_id = Some d
         \<and> chat_messages d \<noteq> []
         \<and> llm_complete e (llm_messages e (chat_messages d)) (extraction_category p) = Inr content
         \<and> json_loads e (strip_fence content) = Inr data"
  then obtain d content data where
    s: "load_fault e chat_id = None" "save_fault e chat_id = None" "chats w chat_id = Some d"
    "chat_messages d \<noteq> []"
    "llm_complete e (llm_messages e (chat_messages d)) (extraction_category p) = Inr content"
    "json_loads e (strip_fence content) = Inr data"
    by blast
  from s(6) assms(1) have "\<forall>t \<in> set (data_topics data). \<not> sticky t"
    by (auto simp: llm_topics_plain_def)
  then have "filter sticky (data_topics data @
               (if data_sticky_ids data = [] then [] else [sticky_entry (data_sticky_ids data)]))
             = (if data_sticky_ids data = [] then [] else [sticky_entry (data_sticky_ids data)])"
    by (rule sticky_of_extracted)
  with extraction_persists [OF s] show ?thesis by simp
qed

lemma run_extractions_sticky:
  assumes "\<forall>e \<in> set es. llm_topics_plain e"
    and "length (filter sticky (persisted_topics w chat_id)) \<le> 1"
  shows "length (filter sticky (persisted_topics (snd (run_extractions es p w chat_id)) chat_id)) \<le> 1"
  using assms
proof (induction es arbitrary: p w)
  case Nil
  then show ?case by simp
next
  case (Cons e es)
  obtain p' w' where r: "run_topic_extraction e p w chat_id = (p', w')"
    by (cases "run_topic_extraction e p w chat_id")
  from Cons.prems have "length (filter sticky (persisted_topics w' chat_id)) \<le> 1"
    using run_topic_extraction_sticky [of e w chat_id p] r by simp
  with Cons.prems Cons.IH [of w' p'] r show ?case by simp
qed

subsection \<open>Commands\<close>

text \<open>
  Claim C10 (frame of re-enabling). \<^verbatim>\<open>set_similarity_mode(True)\<close> sets the flag
  \<open>embedding_search\<close> and changes nothing else, in the plugin or outside it; after
  \<^verbatim>\<open>set_similarity_mode(False)\<close> has cleared the active topics, it leaves them empty.
\<close>

theorem enable_similarity_mode_frame:
  "set_similarity_mode (Some True) kw p w = (p\<lparr>embedding_search := True\<rparr>, w, ''success'', True)
   \<and> active_topics (fst (set_similarity_mode (Some True) kw'
                            (fst (set_similarity_mode (Some False) kw p w)) w')) = []"
  by (simp add: set_similarity_mode_def)

theorem enable_similarity_mode_frame_witness:
  "active_topics (ex_plugin (2 / 5) [''X'']) = [''X'']
   \<and> active_topics (fst (set_similarity_mode (Some False) None (ex_plugin (2 / 5) [''X'']) ex_world)) = []
   \<and> set_similarity_mode (Some True) None (ex_plugin (2 / 5) [''X'']) ex_world
       = ((ex_plugin (2 / 5) [''X''])\<lparr>embedding_search := True\<rparr>, ex_world, ''success'', True)
   \<and> active_topics (fst (set_similarity_mode (Some True) None
                            (fst (set_similarity_mode (Some False) None (ex_plugin (2 / 5) [''X''])
                                    ex_world)) ex_world)) = []"
  using enable_similarity_mode_frame [of None "ex_plugin (2 / 5) [''X'']" ex_world None ex_world]
  by (simp add: set_similarity_mode_def ex_plugin_def)

end
